theory Spec2Isabelle
  imports Complex_Main "HOL-Library.Multiset" "HOL-Library.Monad_Syntax"
begin

section \<open>Order book: data model (order\_book.h)\<close>

text \<open>
  C++ \<open>int\<close> values are modelled as unbounded \<open>int\<close>: signed overflow is undefined
  behaviour in C++, so the model describes the executions in which no arithmetic overflows.
  Integer division and remainder truncate towards zero; division by zero is undefined and
  is a separate branch wherever the source divides.
\<close>

definition cdiv :: "int \<Rightarrow> int \<Rightarrow> int" where
  "cdiv a b = sgn a * sgn b * (\<bar>a\<bar> div \<bar>b\<bar>)"

definition cmod :: "int \<Rightarrow> int \<Rightarrow> int" where
  "cmod a b = a - cdiv a b * b"

text \<open>
  The one floating-point quantity is \<open>averagePrice\<close>, always the quotient of two
  \<open>int\<close>s converted to \<open>double\<close>. The quotient is kept exact (rounding to 53 bits is
  not modelled); the IEEE 754 results of dividing by zero are values of their own.
\<close>

datatype double = Finite rat | NaN | PosInf | NegInf

definition ddiv :: "int \<Rightarrow> int \<Rightarrow> double" where
  \<comment> \<open>\<open>static_cast<double>(a) / b\<close>\<close>
  "ddiv a b =
     (if b = 0 then (if a = 0 then NaN else if 0 < a then PosInf else NegInf)
      else Finite (of_int a / of_int b))"

record OrderState =
  filledSize :: int
  averagePrice :: double

definition unknownOrderState :: OrderState where
  \<comment> \<open>\<open>OrderState{}\<close>: \<open>filledSize{-1}\<close>, \<open>averagePrice{0.0}\<close>\<close>
  "unknownOrderState = \<lparr>filledSize = -1, averagePrice = Finite 0\<rparr>"

text \<open>\<open>PriceLevel\<close> is the pair (price, totalSize); \<open>{-1, -1}\<close> means no bid or offer.\<close>

type_synonym PriceLevel = "int \<times> int"

record LimitOrder =
  price :: int
  originalSize :: int
  remainingSize :: int
  filledValue :: int

text \<open>
  A \<open>std::list<LimitOrder>\<close> node lives at an address of the node store of the book; a
  list iterator is that address. The list of a level is the sequence of its node addresses.
\<close>

record OrderLevel =
  orders :: "nat list"
  totalSize :: int
  nextIdx :: int
  prevIdx :: int

definition emptyLevel :: OrderLevel where
  "emptyLevel = \<lparr>orders = [], totalSize = 0, nextIdx = -1, prevIdx = -1\<rparr>"

record OrderBook =
  maxP :: int
  incr :: int
  nextOrderId :: int
  orderLevels :: "OrderLevel list"
  firstBidIdx :: int
  lastBidIdx :: int
  firstOfferIdx :: int
  lastOfferIdx :: int
  activeOrderMap :: "int \<rightharpoonup> nat"
  doneOrderMap :: "int \<rightharpoonup> OrderState"
  nodes :: "nat \<rightharpoonup> LimitOrder"
  nextNode :: nat

text \<open>
  The constructor throws when \<open>maxPrice % increment \<noteq> 0\<close>; \<open>increment = 0\<close> is undefined
  and a negative element count makes \<open>resize\<close> throw. In all three cases no book exists.
\<close>

definition newOrderBook :: "int \<Rightarrow> int \<Rightarrow> OrderBook option" where
  "newOrderBook maxPrice increment =
     (if increment = 0 then None
      else if cmod maxPrice increment \<noteq> 0 then None
      else if cdiv maxPrice increment + 1 < 0 then None
      else Some \<lparr>maxP = maxPrice, incr = increment, nextOrderId = 1,
                 orderLevels = replicate (nat (cdiv maxPrice increment + 1)) emptyLevel,
                 firstBidIdx = -1, lastBidIdx = -1, firstOfferIdx = -1, lastOfferIdx = -1,
                 activeOrderMap = Map.empty, doneOrderMap = Map.empty,
                 nodes = Map.empty, nextNode = 0\<rparr>)"

text \<open>\<open>orderLevels[i]\<close>: an index outside the vector is undefined behaviour (\<open>None\<close>).\<close>

definition level_at :: "OrderBook \<Rightarrow> int \<Rightarrow> OrderLevel option" where
  "level_at b i =
     (if 0 \<le> i \<and> nat i < length (orderLevels b) then Some (orderLevels b ! nat i) else None)"

definition upd_level :: "int \<Rightarrow> (OrderLevel \<Rightarrow> OrderLevel) \<Rightarrow> OrderBook \<Rightarrow> OrderBook option" where
  "upd_level i f b =
     (case level_at b i of
        None \<Rightarrow> None
      | Some lv \<Rightarrow> Some (b\<lparr>orderLevels := (orderLevels b)[nat i := f lv]\<rparr>))"

definition try_emplace :: "('k \<rightharpoonup> 'v) \<Rightarrow> 'k \<Rightarrow> 'v \<Rightarrow> ('k \<rightharpoonup> 'v)" where
  \<comment> \<open>\<open>std::unordered_map::try_emplace\<close> keeps an existing entry\<close>
  "try_emplace m k v = (case m k of None \<Rightarrow> m(k \<mapsto> v) | Some _ \<Rightarrow> m)"

definition getIsBid :: "OrderBook \<Rightarrow> int \<Rightarrow> bool" where
  "getIsBid b currIdx = (currIdx \<le> lastBidIdx b)"

text \<open>
  \<open>getIsOrderValid\<close>: the conjunction short-circuits, so \<open>price % incr\<close> is evaluated only
  for \<open>0 \<le> price \<le> maxP\<close>; there \<open>incr = 0\<close> is undefined behaviour (\<open>None\<close>).
\<close>

definition getIsOrderValid :: "OrderBook \<Rightarrow> int \<Rightarrow> int \<Rightarrow> bool option" where
  "getIsOrderValid b p orderSize =
     (if 0 \<le> p \<and> p \<le> maxP b
      then (if incr b = 0 then None else Some (cmod p (incr b) = 0 \<and> 0 < orderSize))
      else Some False)"

section \<open>Order book: operations (order\_book.cpp)\<close>

text \<open>
  Every operation returns \<open>None\<close> when the source has undefined behaviour (an index outside
  \<open>orderLevels\<close>, a dangling list iterator, a division by zero) or does not return.
\<close>

definition getOrderStatus :: "OrderBook \<Rightarrow> int \<Rightarrow> (bool \<times> OrderState) option" where
  "getOrderStatus b orderId =
     (case activeOrderMap b orderId of
        Some it \<Rightarrow>
          (case nodes b it of
             None \<Rightarrow> None
           | Some ord \<Rightarrow>
               let fs = originalSize ord - remainingSize ord
               in Some (True, \<lparr>filledSize = fs, averagePrice = ddiv (filledValue ord) fs\<rparr>))
      | None \<Rightarrow>
          (case doneOrderMap b orderId of
             Some st \<Rightarrow> Some (False, st)
           | None \<Rightarrow> Some (False, unknownOrderState)))"

text \<open>
  The loop of \<open>fillOrdersAtCurrIdx\<close>, from \<open>currOrderIt\<close> onwards: the second argument
  is the part of the level's list that starts at \<open>currOrderIt\<close>. The result is that part
  at the exit of the loop, the size still to fill and the book. The filled orders are
  entered under the key \<open>currIdx\<close>, as the source does.
\<close>

function fill_loop :: "int \<Rightarrow> nat list \<Rightarrow> int \<Rightarrow> OrderBook \<Rightarrow> (nat list \<times> int \<times> OrderBook) option" where
  "fill_loop currIdx [] orderSize b = Some ([], orderSize, b)"
| "fill_loop currIdx (it # rest) orderSize b =
     (if 0 < orderSize then
        (case nodes b it of
           None \<Rightarrow> None
         | Some ord \<Rightarrow>
             (let qtyFilled = min orderSize (remainingSize ord);
                  ord' = ord\<lparr>remainingSize := remainingSize ord - qtyFilled,
                             filledValue := filledValue ord + qtyFilled * currIdx * incr b\<rparr>
              in case upd_level currIdx (\<lambda>lv. lv\<lparr>totalSize := totalSize lv - qtyFilled\<rparr>)
                        (b\<lparr>nodes := (nodes b)(it \<mapsto> ord')\<rparr>) of
                   None \<Rightarrow> None
                 | Some b1 \<Rightarrow>
                     if remainingSize ord' = 0
                     then fill_loop currIdx rest (orderSize - qtyFilled)
                            (b1\<lparr>activeOrderMap := (activeOrderMap b1)(currIdx := None),
                                doneOrderMap := try_emplace (doneOrderMap b1) currIdx
                                  \<lparr>filledSize = originalSize ord',
                                   averagePrice = ddiv (filledValue ord') (originalSize ord')\<rparr>\<rparr>)
                     else fill_loop currIdx (it # rest) (orderSize - qtyFilled) b1))
      else Some (it # rest, orderSize, b))"
  by pat_completeness auto
termination
  by (relation "measure (\<lambda>(currIdx, its, orderSize, b). 2 * length its + (if 0 < orderSize then 1 else 0))")
     (auto simp: min_def split: if_splits)

text \<open>
  \<open>fillOrdersAtCurrIdx\<close>: after the loop the nodes before \<open>currOrderIt\<close> are erased from
  the list and destroyed.
\<close>

definition fillOrdersAtCurrIdx :: "int \<Rightarrow> int \<Rightarrow> OrderBook \<Rightarrow> ((int \<times> int) \<times> OrderBook) option" where
  "fillOrdersAtCurrIdx currIdx orderSize b =
     (case level_at b currIdx of
        None \<Rightarrow> None
      | Some lv \<Rightarrow>
          (case fill_loop currIdx (orders lv) orderSize b of
             None \<Rightarrow> None
           | Some (rest, orderSize', b1) \<Rightarrow>
               (case level_at b1 currIdx of
                  None \<Rightarrow> None
                | Some lv1 \<Rightarrow>
                    (let erased = take (length (orders lv1) - length rest) (orders lv1);
                         b2 = b1\<lparr>orderLevels := (orderLevels b1)[nat currIdx := lv1\<lparr>orders := rest\<rparr>],
                                 nodes := fold (\<lambda>a m. m(a := None)) erased (nodes b1)\<rparr>
                     in if totalSize lv1 = 0 then Some ((prevIdx lv1, orderSize'), b2)
                        else Some ((currIdx, orderSize'), b2)))))"

text \<open>
  The two matching loops of \<open>addOrder\<close>. They need not end on a book whose levels are
  inconsistent (a level with orders gone and \<open>totalSize \<noteq> 0\<close>, a cycle of \<open>prevIdx\<close>), so
  they are partial: \<open>None\<close> also stands for a loop that does not return.
\<close>

partial_function (option) match_offers :: "int \<Rightarrow> int \<Rightarrow> int \<Rightarrow> int \<Rightarrow> OrderBook \<Rightarrow> (int \<times> int \<times> int \<times> OrderBook) option" where
  [code]: "match_offers newIdx currOfferIdx orderSize fv b =
     (if 0 \<le> currOfferIdx \<and> currOfferIdx \<le> newIdx \<and> 0 < orderSize then
        Option.bind (fillOrdersAtCurrIdx currOfferIdx orderSize b)
          (\<lambda>((newOfferIdx, newOrderSize), b').
             match_offers newIdx newOfferIdx newOrderSize
               (fv + (orderSize - newOrderSize) * currOfferIdx * incr b) b')
      else Some (currOfferIdx, orderSize, fv, b))"

partial_function (option) match_bids :: "int \<Rightarrow> int \<Rightarrow> int \<Rightarrow> int \<Rightarrow> OrderBook \<Rightarrow> (int \<times> int \<times> int \<times> OrderBook) option" where
  [code]: "match_bids newIdx currBidIdx orderSize fv b =
     (if 0 \<le> currBidIdx \<and> newIdx \<le> currBidIdx \<and> 0 < orderSize then
        Option.bind (fillOrdersAtCurrIdx currBidIdx orderSize b)
          (\<lambda>((newBidIdx, newOrderSize), b').
             match_bids newIdx newBidIdx newOrderSize
               (fv + (orderSize - newOrderSize) * currBidIdx * incr b) b')
      else Some (currBidIdx, orderSize, fv, b))"

text \<open>The walks of \<open>addNewOrderLevel\<close> to the place of a level in the middle of a side.\<close>

partial_function (option) walk_bids :: "OrderBook \<Rightarrow> int \<Rightarrow> int \<Rightarrow> int option" where
  [code]: "walk_bids b newIdx currBidIdx =
     (if newIdx < currBidIdx
      then Option.bind (level_at b currBidIdx) (\<lambda>lv. walk_bids b newIdx (prevIdx lv))
      else Some currBidIdx)"

partial_function (option) walk_offers :: "OrderBook \<Rightarrow> int \<Rightarrow> int \<Rightarrow> int option" where
  [code]: "walk_offers b newIdx currOfferIdx =
     (if currOfferIdx < newIdx
      then Option.bind (level_at b currOfferIdx) (\<lambda>lv. walk_offers b newIdx (prevIdx lv))
      else Some currOfferIdx)"

definition splice_level :: "int \<Rightarrow> int \<Rightarrow> OrderBook \<Rightarrow> OrderBook option" where
  \<comment> \<open>the four assignments of the "in the middle" branches, after the walk stopped at \<open>stopIdx\<close>\<close>
  "splice_level newIdx stopIdx b =
     do {
       lv \<leftarrow> level_at b stopIdx;
       let nextI = nextIdx lv;
       b1 \<leftarrow> upd_level newIdx (\<lambda>l. l\<lparr>nextIdx := nextI\<rparr>) b;
       b2 \<leftarrow> upd_level newIdx (\<lambda>l. l\<lparr>prevIdx := stopIdx\<rparr>) b1;
       b3 \<leftarrow> upd_level stopIdx (\<lambda>l. l\<lparr>nextIdx := newIdx\<rparr>) b2;
       upd_level nextI (\<lambda>l. l\<lparr>prevIdx := newIdx\<rparr>) b3
     }"

definition addNewOrderLevel :: "int \<Rightarrow> bool \<Rightarrow> OrderBook \<Rightarrow> OrderBook option" where
  "addNewOrderLevel newIdx isBid b =
     (if isBid then
        (if lastBidIdx b < 0 then Some (b\<lparr>lastBidIdx := newIdx, firstBidIdx := newIdx\<rparr>)
         else if lastBidIdx b < newIdx then
           do {
             b1 \<leftarrow> upd_level newIdx (\<lambda>l. l\<lparr>prevIdx := lastBidIdx b\<rparr>) b;
             b2 \<leftarrow> upd_level (lastBidIdx b) (\<lambda>l. l\<lparr>nextIdx := newIdx\<rparr>) b1;
             Some (b2\<lparr>lastBidIdx := newIdx\<rparr>)
           }
         else if newIdx < firstBidIdx b then
           do {
             b1 \<leftarrow> upd_level newIdx (\<lambda>l. l\<lparr>nextIdx := firstBidIdx b\<rparr>) b;
             b2 \<leftarrow> upd_level (firstBidIdx b) (\<lambda>l. l\<lparr>prevIdx := newIdx\<rparr>) b1;
             Some (b2\<lparr>firstBidIdx := newIdx\<rparr>)
           }
         else
           do {
             stopIdx \<leftarrow> walk_bids b newIdx (lastBidIdx b);
             splice_level newIdx stopIdx b
           })
      else
        (if lastOfferIdx b < 0 then Some (b\<lparr>lastOfferIdx := newIdx, firstOfferIdx := newIdx\<rparr>)
         else if newIdx < lastOfferIdx b then
           do {
             b1 \<leftarrow> upd_level newIdx (\<lambda>l. l\<lparr>prevIdx := lastOfferIdx b\<rparr>) b;
             b2 \<leftarrow> upd_level (lastOfferIdx b) (\<lambda>l. l\<lparr>nextIdx := newIdx\<rparr>) b1;
             Some (b2\<lparr>lastOfferIdx := newIdx\<rparr>)
           }
         else if firstOfferIdx b < newIdx then
           do {
             b1 \<leftarrow> upd_level newIdx (\<lambda>l. l\<lparr>nextIdx := firstOfferIdx b\<rparr>) b;
             b2 \<leftarrow> upd_level (firstOfferIdx b) (\<lambda>l. l\<lparr>prevIdx := newIdx\<rparr>) b1;
             Some (b2\<lparr>firstOfferIdx := newIdx\<rparr>)
           }
         else
           do {
             stopIdx \<leftarrow> walk_offers b newIdx (lastOfferIdx b);
             splice_level newIdx stopIdx b
           }))"

text \<open>
  \<open>removeOrderLevel\<close>, as written: the offer branch assigns \<open>firstBidIdx\<close> when the level
  has no \<open>prevIdx\<close>, and the pointers of the removed level itself are left as they are.
\<close>

definition removeOrderLevel :: "int \<Rightarrow> OrderBook \<Rightarrow> OrderBook option" where
  "removeOrderLevel currIdx b =
     do {
       lv \<leftarrow> level_at b currIdx;
       let isBid = getIsBid b currIdx;
       let nextI = nextIdx lv;
       let prevI = prevIdx lv;
       b1 \<leftarrow> (if 0 \<le> nextI then upd_level nextI (\<lambda>l. l\<lparr>prevIdx := prevI\<rparr>) b else Some b);
       b2 \<leftarrow> (if 0 \<le> prevI then upd_level prevI (\<lambda>l. l\<lparr>nextIdx := nextI\<rparr>) b1 else Some b1);
       Some (if isBid then
               (let b3 = (if nextI < 0 then b2\<lparr>lastBidIdx := prevI\<rparr> else b2)
                in if prevI < 0 then b3\<lparr>firstBidIdx := nextI\<rparr> else b3)
             else
               (let b3 = (if nextI < 0 then b2\<lparr>lastOfferIdx := prevI\<rparr> else b2)
                in if prevI < 0 then b3\<lparr>firstBidIdx := nextI\<rparr> else b3))
     }"

text \<open>
  \<open>addOrder\<close>. The new node is allocated at the fresh address \<open>nextNode\<close> and appended
  to the list of its level.
\<close>

definition addOrder :: "OrderBook \<Rightarrow> int \<Rightarrow> int \<Rightarrow> bool \<Rightarrow> ((bool \<times> int) \<times> OrderBook) option" where
  "addOrder b p orderSize isBid =
     (case getIsOrderValid b p orderSize of
        None \<Rightarrow> None
      | Some False \<Rightarrow> Some ((False, -1), b)
      | Some True \<Rightarrow>
          (let originalSz = orderSize; newIdx = cdiv p (incr b)
           in case (if isBid then
                      map_option
                        (\<lambda>(stopIdx, sz, fv, b1).
                           (sz, fv, b1\<lparr>lastOfferIdx := stopIdx,
                                       firstOfferIdx := (if stopIdx < 0 then stopIdx else firstOfferIdx b1)\<rparr>))
                        (match_offers newIdx (lastOfferIdx b) orderSize 0 b)
                    else
                      map_option
                        (\<lambda>(stopIdx, sz, fv, b1).
                           (sz, fv, b1\<lparr>lastBidIdx := stopIdx,
                                       firstBidIdx := (if stopIdx < 0 then stopIdx else firstBidIdx b1)\<rparr>))
                        (match_bids newIdx (lastBidIdx b) orderSize 0 b)) of
                None \<Rightarrow> None
              | Some (sz, fv, b2) \<Rightarrow>
                  if sz = 0 then
                    Some ((True, nextOrderId b2),
                          b2\<lparr>doneOrderMap := try_emplace (doneOrderMap b2) (nextOrderId b2)
                                \<lparr>filledSize = originalSz, averagePrice = ddiv fv originalSz\<rparr>,
                             nextOrderId := nextOrderId b2 + 1\<rparr>)
                  else
                    do {
                      lv \<leftarrow> level_at b2 newIdx;
                      b3 \<leftarrow> (if totalSize lv = 0 then addNewOrderLevel newIdx isBid b2 else Some b2);
                      let it = nextNode b3;
                      b4 \<leftarrow> upd_level newIdx
                              (\<lambda>l. l\<lparr>orders := orders l @ [it], totalSize := totalSize l + sz\<rparr>) b3;
                      Some ((True, nextOrderId b4),
                            b4\<lparr>nodes := (nodes b4)(it \<mapsto>
                                  \<lparr>price = p, originalSize = originalSz,
                                   remainingSize = sz, filledValue = fv\<rparr>),
                               nextNode := Suc it,
                               activeOrderMap := (activeOrderMap b4)(nextOrderId b4 \<mapsto> it),
                               nextOrderId := nextOrderId b4 + 1\<rparr>)
                    }))"

text \<open>
  \<open>cancelOrder\<close>. Erasing through an iterator that is not in the list of the level is
  undefined behaviour.
\<close>

definition cancelOrder :: "OrderBook \<Rightarrow> int \<Rightarrow> ((bool \<times> OrderState) \<times> OrderBook) option" where
  "cancelOrder b orderId =
     (case getOrderStatus b orderId of
        None \<Rightarrow> None
      | Some (active, os) \<Rightarrow>
          if \<not> active then Some ((False, os), b)
          else
            do {
              it \<leftarrow> activeOrderMap b orderId;
              ord \<leftarrow> nodes b it;
              currIdx \<leftarrow> (if incr b = 0 then None else Some (cdiv (price ord) (incr b)));
              lv \<leftarrow> level_at b currIdx;
              b1 \<leftarrow> (if it \<in> set (orders lv)
                     then upd_level currIdx
                            (\<lambda>l. l\<lparr>totalSize := totalSize l - remainingSize ord,
                                   orders := remove1 it (orders l)\<rparr>) b
                     else None);
              let b2 = b1\<lparr>nodes := (nodes b1)(it := None),
                          activeOrderMap := (activeOrderMap b1)(orderId := None)\<rparr>;
              lv2 \<leftarrow> level_at b2 currIdx;
              b3 \<leftarrow> (if totalSize lv2 = 0 then removeOrderLevel currIdx b2 else Some b2);
              Some ((True, os), b3)
            })"

text \<open>
  \<open>updateOrder\<close> can also leave by the exception \<open>std::out_of_range\<close> of
  \<open>activeOrderMap.at(newOrderId)\<close>; the book then stays as it is at the throw. The
  two tests of \<open>(!getIsOrderValid(...)) || (os.filledSize >= newSize)\<close> are written
  one after the other, as the short-circuit evaluates them.
\<close>

datatype 'a outcome = Return 'a OrderBook | Throw_out_of_range OrderBook | Undefined

definition updateOrder :: "OrderBook \<Rightarrow> int \<Rightarrow> int \<Rightarrow> int \<Rightarrow> (bool \<times> OrderState) outcome" where
  "updateOrder b orderId newPrice newSize =
     (case getOrderStatus b orderId of
        None \<Rightarrow> Undefined
      | Some (active, os) \<Rightarrow>
          if \<not> active then Return (False, os) b
          else
            (case getIsOrderValid b newPrice newSize of
               None \<Rightarrow> Undefined
             | Some valid \<Rightarrow>
                 if \<not> valid then Return (False, os) b
                 else if newSize \<le> filledSize os then Return (False, os) b
                 else
                   (case activeOrderMap b orderId of
                      None \<Rightarrow> Throw_out_of_range b
                    | Some it \<Rightarrow>
                        (case nodes b it of
                           None \<Rightarrow> Undefined
                         | Some ord \<Rightarrow>
                             if price ord = newPrice then
                               Return (True, os)
                                 (b\<lparr>nodes := (nodes b)(it \<mapsto>
                                      ord\<lparr>remainingSize := newSize - filledSize os,
                                          originalSize := newSize\<rparr>)\<rparr>)
                             else
                               (let currIdx = cdiv (price ord) (incr b);
                                    orderSize = newSize - filledSize os;
                                    isBid = getIsBid b currIdx
                                in case cancelOrder b orderId of
                                     None \<Rightarrow> Undefined
                                   | Some (_, b1) \<Rightarrow>
                                       (case addOrder b1 newPrice orderSize isBid of
                                          None \<Rightarrow> Undefined
                                        | Some ((_, newOrderId), b2) \<Rightarrow>
                                            (case activeOrderMap b2 newOrderId of
                                               None \<Rightarrow> Throw_out_of_range b2
                                             | Some it' \<Rightarrow>
                                                 Return (True, os)
                                                   (b2\<lparr>activeOrderMap :=
                                                         ((activeOrderMap b2)(orderId \<mapsto> it'))
                                                           (newOrderId := None)\<rparr>))))))))"

definition getL1OrderData :: "OrderBook \<Rightarrow> (PriceLevel \<times> PriceLevel) option" where
  "getL1OrderData b =
     do {
       bestBid \<leftarrow> (if 0 \<le> lastBidIdx b
                   then map_option (\<lambda>lv. (lastBidIdx b * incr b, totalSize lv)) (level_at b (lastBidIdx b))
                   else Some (-1, -1));
       bestOffer \<leftarrow> (if 0 \<le> lastOfferIdx b
                     then map_option (\<lambda>lv. (lastOfferIdx b * incr b, totalSize lv)) (level_at b (lastOfferIdx b))
                     else Some (-1, -1));
       Some (bestBid, bestOffer)
     }"

definition returned :: "'a outcome \<Rightarrow> 'a option" where
  \<comment> \<open>the value a call returned, if it returned\<close>
  "returned r = (case r of Return x b \<Rightarrow> Some x | Throw_out_of_range b \<Rightarrow> None | Undefined \<Rightarrow> None)"

definition thrown :: "'a outcome \<Rightarrow> OrderBook option" where
  \<comment> \<open>the book a call left behind, if it threw\<close>
  "thrown r = (case r of Return x b \<Rightarrow> None | Throw_out_of_range b \<Rightarrow> Some b | Undefined \<Rightarrow> None)"

subsection \<open>Books reached by short call sequences\<close>

text \<open>
  Each book below is the result of public calls on a new book, in the order written. The
  orders get the ids 1, 2, 3 as they are added, and their nodes the addresses 0, 1, 2.
\<close>

definition book_bid_and_offer :: "OrderBook option" where
  \<comment> \<open>\<open>OrderBook(2, 1)\<close>; \<open>addOrder(1, 1, true)\<close> is order 1; \<open>addOrder(2, 1, false)\<close> is order 2\<close>
  "book_bid_and_offer =
     do {
       b0 \<leftarrow> newOrderBook 2 1;
       (r1, b1) \<leftarrow> addOrder b0 1 1 True;
       (r2, b2) \<leftarrow> addOrder b1 2 1 False;
       Some b2
     }"

definition book_offer5_bid4 :: "OrderBook option" where
  \<comment> \<open>\<open>OrderBook(5, 1)\<close>; \<open>addOrder(5, 1, false)\<close> is order 1; \<open>addOrder(4, 1, true)\<close> is order 2\<close>
  "book_offer5_bid4 =
     do {
       b0 \<leftarrow> newOrderBook 5 1;
       (r1, b1) \<leftarrow> addOrder b0 5 1 False;
       (r2, b2) \<leftarrow> addOrder b1 4 1 True;
       Some b2
     }"

definition book_one_offer :: "OrderBook option" where
  \<comment> \<open>\<open>OrderBook(2, 1)\<close>; \<open>addOrder(2, 1, false)\<close> is order 1\<close>
  "book_one_offer =
     do {
       b0 \<leftarrow> newOrderBook 2 1;
       (r1, b1) \<leftarrow> addOrder b0 2 1 False;
       Some b1
     }"

definition book_half_filled :: "OrderBook option" where
  \<comment> \<open>\<open>OrderBook(2, 1)\<close>; \<open>addOrder(2, 2, false)\<close> is order 1; \<open>addOrder(2, 1, true)\<close> fills half of it\<close>
  "book_half_filled =
     do {
       b0 \<leftarrow> newOrderBook 2 1;
       (r1, b1) \<leftarrow> addOrder b0 2 2 False;
       (r2, b2) \<leftarrow> addOrder b1 2 1 True;
       Some b2
     }"

definition book_bids_cancelled :: "OrderBook option" where
  \<comment> \<open>\<open>OrderBook(2, 1)\<close>; bids 1 and 2 at the prices 1 and 2; \<open>cancelOrder(2)\<close>; \<open>cancelOrder(1)\<close>\<close>
  "book_bids_cancelled =
     do {
       b0 \<leftarrow> newOrderBook 2 1;
       (r1, b1) \<leftarrow> addOrder b0 1 1 True;
       (r2, b2) \<leftarrow> addOrder b1 2 1 True;
       (r3, b3) \<leftarrow> cancelOrder b2 2;
       (r4, b4) \<leftarrow> cancelOrder b3 1;
       Some b4
     }"

definition half_filled_book :: OrderBook where
  \<comment> \<open>the book of \<open>book_half_filled\<close>, written out\<close>
  "half_filled_book =
     \<lparr>maxP = 2, incr = 1, nextOrderId = 3,
      orderLevels = [emptyLevel, emptyLevel,
                     \<lparr>orders = [0], totalSize = 1, nextIdx = -1, prevIdx = -1\<rparr>],
      firstBidIdx = -1, lastBidIdx = -1, firstOfferIdx = 2, lastOfferIdx = 2,
      activeOrderMap = [1 \<mapsto> 0],
      doneOrderMap = [2 \<mapsto> \<lparr>filledSize = 1, averagePrice = Finite 2\<rparr>],
      nodes = [0 \<mapsto> \<lparr>price = 2, originalSize = 2, remainingSize = 1, filledValue = 2\<rparr>],
      nextNode = 1\<rparr>"

section \<open>Task scheduler (task\_scheduler.h)\<close>

text \<open>
  Time points and durations are \<open>int\<close> counts of milliseconds. The members guarded by
  \<open>q_mutex\<close> form the record; every client call and every stretch of the event loop that
  holds the lock is one atomic function on it.
\<close>

record Task =
  task_id :: int
  start_time :: int
  running_time :: int

record TaskScheduler =
  next_task_id :: int
  executed_tasks :: "int set"
  repeated_tasks :: "int \<rightharpoonup> int"
  event_loop_running :: bool
  taskq :: "Task list"

text \<open>
  \<open>std::priority_queue<Task>\<close> with \<open>operator<\<close> reversed on \<open>start_time\<close>: the queue is
  kept as a list in ascending \<open>start_time\<close>, \<open>top\<close> is its head and \<open>pop\<close> drops the head.
  The order among equal start times is the implementation's; here a pushed task goes before
  the tasks of the same start time.
\<close>

definition tq_push :: "Task \<Rightarrow> Task list \<Rightarrow> Task list" where
  "tq_push t q = insort_key start_time t q"

datatype report = Not_running | Has_been_executed | Not_found | Deleting

definition scheduleTask :: "int \<Rightarrow> int \<Rightarrow> TaskScheduler \<Rightarrow> int \<times> TaskScheduler" where
  "scheduleTask st rt s =
     (if \<not> event_loop_running s then (-1, s)
      else (next_task_id s,
            s\<lparr>taskq := tq_push \<lparr>task_id = next_task_id s, start_time = st, running_time = rt\<rparr> (taskq s),
              next_task_id := next_task_id s + 1\<rparr>))"

definition scheduleRepeated :: "int \<Rightarrow> int \<Rightarrow> int \<Rightarrow> TaskScheduler \<Rightarrow> int \<times> TaskScheduler" where
  "scheduleRepeated st repeat_interval rt s =
     (if \<not> event_loop_running s then (-1, s)
      else (next_task_id s,
            s\<lparr>taskq := tq_push \<lparr>task_id = next_task_id s, start_time = st, running_time = rt\<rparr> (taskq s),
              repeated_tasks := (repeated_tasks s)(next_task_id s \<mapsto> repeat_interval),
              next_task_id := next_task_id s + 1\<rparr>))"

text \<open>
  The search of \<open>deleteScheduled\<close>: tasks are popped into \<open>tasks\<close> until the top has the
  wanted id or the queue is empty.
\<close>

fun pop_until :: "int \<Rightarrow> Task list \<Rightarrow> Task list \<Rightarrow> Task list \<times> Task list" where
  "pop_until tid [] tasks = (tasks, [])"
| "pop_until tid (t # q) tasks =
     (if task_id t \<noteq> tid then pop_until tid q (tasks @ [t]) else (tasks, t # q))"

text \<open>\<open>deleteScheduled\<close> returns its \<open>bool\<close> and the last message it prints.\<close>

definition deleteScheduled :: "int \<Rightarrow> TaskScheduler \<Rightarrow> (bool \<times> report) \<times> TaskScheduler" where
  "deleteScheduled tid s =
     (if \<not> event_loop_running s then ((False, Not_running), s)
      else
        (let ok = (repeated_tasks s tid \<noteq> None);
             s1 = (if ok then s\<lparr>repeated_tasks := (repeated_tasks s)(tid := None)\<rparr> else s)
         in if \<not> ok \<and> tid \<in> executed_tasks s1 then ((False, Has_been_executed), s1)
            else
              (case pop_until tid (taskq s1) [] of
                 (tasks, q) \<Rightarrow>
                   (let (ok', q1) = (case q of
                                       [] \<Rightarrow> (ok, q)
                                     | t # q' \<Rightarrow> if task_id t = tid then (True, q') else (ok, q));
                        s2 = s1\<lparr>taskq := foldl (\<lambda>acc t. tq_push t acc) q1 tasks\<rparr>
                    in if \<not> ok' then ((False, Not_found), s2) else ((True, Deleting), s2)))))"

text \<open>
  The event loop around one task. \<open>run_begin\<close> is lines 190 to 207: with the lock held and
  the queue not empty, the top is popped and entered into \<open>executed_tasks\<close> when the wait
  timed out or the task is due within \<open>MIN_DURATION\<close> (20) of \<open>now\<close>; the lock is then
  released and the task runs. \<open>run_finish\<close> is lines 212 to 219: with the lock held again,
  the task is pushed back with \<open>start_time + interval\<close> when \<open>repeated_tasks\<close> has its id.
\<close>

definition run_begin :: "bool \<Rightarrow> int \<Rightarrow> TaskScheduler \<Rightarrow> (Task \<times> TaskScheduler) option" where
  "run_begin timeout now s =
     (case taskq s of
        [] \<Rightarrow> None
      | t # q \<Rightarrow>
          if timeout \<or> start_time t < now + 20
          then Some (t, s\<lparr>taskq := q, executed_tasks := insert (task_id t) (executed_tasks s)\<rparr>)
          else None)"

definition run_finish :: "Task \<Rightarrow> TaskScheduler \<Rightarrow> TaskScheduler" where
  "run_finish t s =
     (case repeated_tasks s (task_id t) of
        None \<Rightarrow> s
      | Some interval \<Rightarrow>
          s\<lparr>taskq := tq_push \<lparr>task_id = task_id t, start_time = start_time t + interval,
                               running_time = running_time t\<rparr> (taskq s)\<rparr>)"

text \<open>
  The worker thread has not yet set \<open>event_loop_running\<close>, is waiting with the lock
  released, is running a task with the lock released, or is gone. An action of the system
  is one client call or one locked stretch of the event loop; client calls may fall between
  \<open>run_begin\<close> and \<open>run_finish\<close> of one task. \<open>step\<close> is \<open>None\<close> when the worker is not
  at the place of the action. When the waits end is left open: \<open>Loop_run\<close> carries any
  \<open>timeout\<close> and \<open>now\<close>, and \<open>Loop_shutdown\<close> may come at any wait.
\<close>

datatype worker = Starting | Waiting | Running Task | Exited

datatype action =
    Call_scheduleTask int int
  | Call_scheduleRepeated int int int
  | Call_deleteScheduled int
  | Loop_start
  | Loop_run bool int
  | Loop_requeue
  | Loop_shutdown

fun step :: "action \<Rightarrow> TaskScheduler \<times> worker \<Rightarrow> (TaskScheduler \<times> worker) option" where
  "step (Call_scheduleTask st rt) (s, w) = Some (snd (scheduleTask st rt s), w)"
| "step (Call_scheduleRepeated st iv rt) (s, w) = Some (snd (scheduleRepeated st iv rt s), w)"
| "step (Call_deleteScheduled tid) (s, w) = Some (snd (deleteScheduled tid s), w)"
| "step Loop_start (s, w) =
     (case w of Starting \<Rightarrow> Some (s\<lparr>event_loop_running := True\<rparr>, Waiting) | _ \<Rightarrow> None)"
| "step (Loop_run timeout now) (s, w) =
     (case w of
        Waiting \<Rightarrow> map_option (\<lambda>(t, s'). (s', Running t)) (run_begin timeout now s)
      | _ \<Rightarrow> None)"
| "step Loop_requeue (s, w) =
     (case w of Running t \<Rightarrow> Some (run_finish t s, Waiting) | _ \<Rightarrow> None)"
| "step Loop_shutdown (s, w) =
     (case w of Waiting \<Rightarrow> Some (s\<lparr>event_loop_running := False\<rparr>, Exited) | _ \<Rightarrow> None)"

fun steps :: "action list \<Rightarrow> TaskScheduler \<times> worker \<Rightarrow> (TaskScheduler \<times> worker) option" where
  "steps [] c = Some c"
| "steps (a # as) c = (case step a c of None \<Rightarrow> None | Some c' \<Rightarrow> steps as c')"

definition new_scheduler :: TaskScheduler where
  \<comment> \<open>the members as the constructor leaves them\<close>
  "new_scheduler =
     \<lparr>next_task_id = 1, executed_tasks = {}, repeated_tasks = Map.empty,
      event_loop_running = False, taskq = []\<rparr>"



subsection \<open>Example schedulers\<close>

definition sched_example :: TaskScheduler where
  \<comment> \<open>task 1 has run once; task 2 repeats every 500 and its next occurrence is pending\<close>
  "sched_example =
     \<lparr>next_task_id = 3, executed_tasks = {1, 2}, repeated_tasks = [2 \<mapsto> 500],
      event_loop_running = True,
      taskq = [\<lparr>task_id = 2, start_time = 950, running_time = 10\<rparr>]\<rparr>"


section \<open>Resource pool (resource\_pool.h)\<close>

text \<open>
  A resource is the address \<open>allocate\<close> returned for it. The member \<open>allocate\<close> is a
  \<open>std::function\<close>: it holds a callable that makes a new resource at each call, so that the
  number of calls so far is the next address, or it is empty and calling it throws
  \<open>std::bad_function_call\<close>. \<open>use_count\<close> is the number of \<open>shared_ptr\<close>s that own the
  pool object: the weak pointer of \<open>weak_from_this\<close> is expired, and \<open>lock\<close> fails,
  exactly when it is 0.
\<close>

datatype factory = Callable | Empty_function

record ResourcePool =
  pool :: "nat list"
  use_count :: nat
  allocate :: factory
  allocated :: nat
  deleted :: "nat set"

datatype pool_error = Assertion_failed | Bad_function_call

text \<open>
  \<open>request\<close>: the resource is taken first (from \<open>allocate()\<close>, which throws when the
  function is empty, or popped from the front of the queue); the constructor of \<open>RDeleter\<close>
  then asserts that the weak pointer is not expired.
\<close>

definition request :: "ResourcePool \<Rightarrow> pool_error + (nat \<times> ResourcePool)" where
  "request p =
     (case pool p of
        [] \<Rightarrow>
          (case allocate p of
             Empty_function \<Rightarrow> Inl Bad_function_call
           | Callable \<Rightarrow>
               (let r_ptr = allocated p; p1 = p\<lparr>allocated := Suc (allocated p)\<rparr>
                in if use_count p1 = 0 then Inl Assertion_failed else Inr (r_ptr, p1)))
      | r_ptr # rest \<Rightarrow>
          (let p1 = p\<lparr>pool := rest\<rparr>
           in if use_count p1 = 0 then Inl Assertion_failed else Inr (r_ptr, p1)))"

definition recycle :: "nat \<Rightarrow> ResourcePool \<Rightarrow> ResourcePool" where
  "recycle resource_ptr p = p\<lparr>pool := pool p @ [resource_ptr]\<rparr>"

definition rdeleter :: "nat \<Rightarrow> ResourcePool \<Rightarrow> ResourcePool" where
  \<comment> \<open>\<open>RDeleter::operator()\<close>, run when a handle is dropped\<close>
  "rdeleter resource_ptr p =
     (if 0 < use_count p then recycle resource_ptr p
      else p\<lparr>deleted := insert resource_ptr (deleted p)\<rparr>)"

definition get_num_unused :: "ResourcePool \<Rightarrow> nat" where
  "get_num_unused p = length (pool p)"

text \<open>
  The move constructor \<open>ResourcePool(ResourcePool&& other)\<close> makes two objects of one.
  The new object takes the queue and the factory of \<open>other\<close>; its base
  \<open>enable_shared_from_this\<close> is default-constructed, so no \<open>shared_ptr\<close> owns it.
  The source \<open>other\<close> keeps its base and with it its owners; its \<open>std::function\<close> and its
  \<open>std::queue\<close> are moved out, which leaves both empty in the standard library
  implementations (the standard says no more than valid but unspecified). Both objects
  see the heap as it is at the move.
\<close>

definition move_constructed :: "ResourcePool \<Rightarrow> ResourcePool" where
  \<comment> \<open>the object the move constructor builds from \<open>other\<close>\<close>
  "move_constructed other = other\<lparr>use_count := 0\<rparr>"

definition moved_from :: "ResourcePool \<Rightarrow> ResourcePool" where
  \<comment> \<open>the source object \<open>other\<close> after the move\<close>
  "moved_from other = other\<lparr>pool := [], allocate := Empty_function\<rparr>"

subsection \<open>Example pools\<close>

definition fresh_pool :: ResourcePool where
  \<comment> \<open>a new pool held by one \<open>shared_ptr\<close>\<close>
  "fresh_pool =
     \<lparr>pool = [], use_count = 1, allocate = Callable, allocated = 0, deleted = {}\<rparr>"

definition stack_pool :: ResourcePool where
  \<comment> \<open>a new pool on the stack, which no \<open>shared_ptr\<close> owns\<close>
  "stack_pool =
     \<lparr>pool = [], use_count = 0, allocate = Callable, allocated = 0, deleted = {}\<rparr>"

definition pool_two_idle :: ResourcePool where
  \<comment> \<open>a pool held by one \<open>shared_ptr\<close>, after two handles were dropped\<close>
  "pool_two_idle =
     \<lparr>pool = [0, 1], use_count = 1, allocate = Callable, allocated = 2, deleted = {}\<rparr>"

section \<open>Order book: what the code does on concrete call sequences\<close>

text \<open>
  C1 (the code departs from the claim). A resting order that a fill completes should leave
  the active map and enter the done map under its own order id, and \<open>getOrderStatus\<close> should
  then report the done state. \<open>fillOrdersAtCurrIdx\<close> uses the key \<open>currIdx\<close>, the index of
  the price level. On \<open>OrderBook(3, 1)\<close>, \<open>addOrder(3, 1, false)\<close> is order 1, resting at
  level 3 in node 0 with 1 remaining, and \<open>addOrder(3, 1, true)\<close> is order 2 and fills it
  whole. After that order 1 is still in the active map, with an iterator to the erased
  node 0; the done map has no entry 1 but an entry 3; and \<open>getOrderStatus(1)\<close>
  dereferences the dangling iterator (\<open>None\<close>).
\<close>

theorem filled_resting_order_keyed_by_level_index:
  "do {
     b0 \<leftarrow> newOrderBook 3 1;
     (r1, b1) \<leftarrow> addOrder b0 3 1 False;
     (r2, b2) \<leftarrow> addOrder b1 3 1 True;
     Some (r1, activeOrderMap b1 1, map_option remainingSize (nodes b1 0),
           r2, activeOrderMap b2 1, nodes b2 0, doneOrderMap b2 1, doneOrderMap b2 3,
           getOrderStatus b2 1)
   } = Some ((True, 1), Some 0, Some 1,
             (True, 2), Some 0, None, None, Some \<lparr>filledSize = 1, averagePrice = Finite 3\<rparr>,
             None)"
  by code_simp

text \<open>
  C2 (the code departs from the claim). Removing an offer level should move only the offer
  endpoints. On \<open>book_bid_and_offer\<close> the one bid level is 1 and the one offer level is 2,
  with no neighbours. \<open>cancelOrder(2)\<close> empties level 2: \<open>removeOrderLevel\<close> sets
  \<open>lastOfferIdx\<close> to \<open>-1\<close>, leaves \<open>firstOfferIdx\<close> at 2 and sets \<open>firstBidIdx\<close> to \<open>-1\<close>.
\<close>

theorem removing_offer_level_resets_firstBidIdx:
  "map_option (\<lambda>b. (firstBidIdx b, lastBidIdx b, firstOfferIdx b, lastOfferIdx b,
                     map_option (\<lambda>l. (nextIdx l, prevIdx l)) (level_at b 2)))
     book_bid_and_offer
   = Some (1, 1, 2, 2, Some (-1, -1))
   \<and> do {
       b \<leftarrow> book_bid_and_offer;
       (r, b') \<leftarrow> cancelOrder b 2;
       Some (fst r, firstBidIdx b', lastBidIdx b', firstOfferIdx b', lastOfferIdx b')
     } = Some (True, -1, 1, 2, -1)"
  by code_simp

text \<open>
  C3 (the code departs from the claim). An update to a new price should keep the public
  order id bound to the re-added order and hide the id of the re-add. On
  \<open>book_offer5_bid4\<close> order 2 is an active bid at 4 and \<open>updateOrder(2, 5, 1)\<close> has valid
  parameters. The re-added bid at 5 is filled at once by the offer, so it is order 3 of
  the done map and not in the active map: \<open>activeOrderMap.at(newOrderId)\<close> throws. In the
  book left behind order 2 is unknown and order 3 answers with a done state.
\<close>

theorem updateOrder_throws_when_readd_is_filled:
  "do {
     b \<leftarrow> book_offer5_bid4;
     Some (getOrderStatus b 2, getIsOrderValid b 5 1)
   } = Some (Some (True, \<lparr>filledSize = 0, averagePrice = NaN\<rparr>), Some True)
   \<and> do {
       b \<leftarrow> book_offer5_bid4;
       b' \<leftarrow> thrown (updateOrder b 2 5 1);
       Some (getOrderStatus b' 2, getOrderStatus b' 3)
     } = Some (Some (False, unknownOrderState),
               Some (False, \<lparr>filledSize = 1, averagePrice = Finite 5\<rparr>))"
  by code_simp

text \<open>
  C7 (the code departs from the claim). For an active order with nothing filled the
  average price should be 0. \<open>getOrderStatus\<close> divides \<open>filledValue\<close> by \<open>filledSize\<close>
  without a test: on \<open>book_one_offer\<close> order 1 is active and unfilled, and the quotient
  0.0 / 0 is not a number.
\<close>

theorem getOrderStatus_unfilled_average_is_NaN:
  "do {
     b \<leftarrow> book_one_offer;
     Some (activeOrderMap b 1, nodes b 0, getOrderStatus b 1)
   } = Some (Some 0,
             Some \<lparr>price = 2, originalSize = 1, remainingSize = 1, filledValue = 0\<rparr>,
             Some (True, \<lparr>filledSize = 0, averagePrice = NaN\<rparr>))"
  by code_simp

text \<open>
  C8 (the code departs from the claim). Adding an order that does not cross and cancelling
  it should restore the book. \<open>book_bids_cancelled\<close> has no bid and no offer, both bid
  endpoints are \<open>-1\<close>, and level 2 still has the \<open>prevIdx\<close> 1 of its earlier use, since
  \<open>removeOrderLevel\<close> leaves the pointers of the removed level and \<open>addNewOrderLevel\<close> does
  not reset them for the only level of a side. \<open>addOrder(2, 1, true)\<close> is valid, meets no
  offer and is order 3; after \<open>cancelOrder(3)\<close> the endpoints are \<open>firstBidIdx = 2\<close> and
  \<open>lastBidIdx = 1\<close>, and the best bid of the L1 data is the empty level 1.
\<close>

theorem add_cancel_round_trip_moves_bid_endpoints:
  "map_option (\<lambda>b. (firstBidIdx b, lastBidIdx b, firstOfferIdx b, lastOfferIdx b,
                     map_option prevIdx (level_at b 2), getL1OrderData b))
     book_bids_cancelled
   = Some (-1, -1, -1, -1, Some 1, Some ((-1, -1), (-1, -1)))
   \<and> do {
       b \<leftarrow> book_bids_cancelled;
       (r, b1) \<leftarrow> addOrder b 2 1 True;
       (r', b2) \<leftarrow> cancelOrder b1 (snd r);
       Some (r, fst r', firstBidIdx b2, lastBidIdx b2, firstOfferIdx b2, lastOfferIdx b2,
             getL1OrderData b2)
     } = Some ((True, 3), True, 2, 1, -1, -1, Some ((1, 0), (-1, -1)))"
  by code_simp

section \<open>Order book: rejected calls\<close>

text \<open>
  C6, as stated, fails: a rejected \<open>updateOrder\<close> on an active order does not return the
  sentinel state. On \<open>book_half_filled\<close> order 1 is active with 1 of 2 filled;
  \<open>updateOrder(1, 2, 1)\<close> asks for a size that is not above the filled size and returns
  \<open>false\<close> with the state of the order, \<open>{1, 2.0}\<close>, which is not \<open>{-1, 0.0}\<close>.
\<close>

theorem rejected_update_returns_order_state:
  "do {
     b \<leftarrow> book_half_filled;
     Some (getOrderStatus b 1, getIsOrderValid b 2 1, returned (updateOrder b 1 2 1))
   } = Some (Some (True, \<lparr>filledSize = 1, averagePrice = Finite 2\<rparr>), Some True,
             Some (False, \<lparr>filledSize = 1, averagePrice = Finite 2\<rparr>))
   \<and> \<lparr>filledSize = 1, averagePrice = Finite 2\<rparr> \<noteq> unknownOrderState"
  by code_simp

text \<open>
  C6, amended. On a book with a nonzero increment: \<open>addOrder\<close> with a price below 0, above
  \<open>maxP\<close> or off the increment, or with a size that is not positive, returns \<open>(false, -1)\<close>
  and the book is unchanged; \<open>updateOrder\<close> on an active order with such parameters, or
  with a new size not above the filled size, returns \<open>false\<close> with the status of the order
  and the book is unchanged; \<open>updateOrder\<close> and \<open>cancelOrder\<close> on an id that is not in the
  active map return \<open>false\<close> with the done state of the id, or with the sentinel \<open>{-1, 0.0}\<close>
  when the id is unknown, and the book is unchanged.
\<close>

theorem rejected_calls_leave_book_unchanged:
  "incr b \<noteq> 0 \<Longrightarrow>
     ((p < 0 \<or> maxP b < p \<or> cmod p (incr b) \<noteq> 0 \<or> sz \<le> 0)
        \<longrightarrow> addOrder b p sz isBid = Some ((False, -1), b))
   \<and> (getOrderStatus b oid = Some (True, os)
        \<and> (p < 0 \<or> maxP b < p \<or> cmod p (incr b) \<noteq> 0 \<or> sz \<le> 0 \<or> sz \<le> filledSize os)
        \<longrightarrow> updateOrder b oid p sz = Return (False, os) b)
   \<and> (activeOrderMap b oid' = None
        \<longrightarrow> (let os' = (case doneOrderMap b oid' of None \<Rightarrow> unknownOrderState | Some st \<Rightarrow> st)
             in updateOrder b oid' p' sz' = Return (False, os') b
              \<and> cancelOrder b oid' = Some ((False, os'), b)))"
  by (auto simp: addOrder_def updateOrder_def cancelOrder_def getIsOrderValid_def
                 getOrderStatus_def Let_def
           split: option.splits)

text \<open>
  Witness for C6: on \<open>half_filled_book\<close>, with the price 3 above \<open>maxP = 2\<close>, the active
  order 1 and the completed order 2.
\<close>

theorem rejected_calls_leave_book_unchanged_witness:
  "incr half_filled_book \<noteq> 0
   \<and> maxP half_filled_book < 3
   \<and> getOrderStatus half_filled_book 1 = Some (True, \<lparr>filledSize = 1, averagePrice = Finite 2\<rparr>)
   \<and> activeOrderMap half_filled_book 2 = None
   \<and> addOrder half_filled_book 3 1 True = Some ((False, -1), half_filled_book)
   \<and> updateOrder half_filled_book 1 3 1
       = Return (False, \<lparr>filledSize = 1, averagePrice = Finite 2\<rparr>) half_filled_book
   \<and> updateOrder half_filled_book 2 1 1
       = Return (False, \<lparr>filledSize = 1, averagePrice = Finite 2\<rparr>) half_filled_book
   \<and> cancelOrder half_filled_book 2
       = Some ((False, \<lparr>filledSize = 1, averagePrice = Finite 2\<rparr>), half_filled_book)"
proof -
  have h0: "incr half_filled_book \<noteq> 0" "maxP half_filled_book < 3"
    "activeOrderMap half_filled_book 2 = None"
    "doneOrderMap half_filled_book 2 = Some \<lparr>filledSize = 1, averagePrice = Finite 2\<rparr>"
    by (simp_all add: half_filled_book_def)
  have h1: "getOrderStatus half_filled_book 1
              = Some (True, \<lparr>filledSize = 1, averagePrice = Finite 2\<rparr>)"
    by (simp add: half_filled_book_def getOrderStatus_def ddiv_def)
  from rejected_calls_leave_book_unchanged
         [OF h0(1), of 3 1 True 1 "\<lparr>filledSize = 1, averagePrice = Finite 2\<rparr>" 2 1 1]
       h0 h1
  show ?thesis by (simp add: Let_def)
qed

lemma book_half_filled_eq: "book_half_filled = Some half_filled_book"
  unfolding book_half_filled_def half_filled_book_def
  by (simp add: newOrderBook_def cmod_def cdiv_def addOrder_def getIsOrderValid_def emptyLevel_def
        match_bids.simps match_offers.simps level_at_def upd_level_def addNewOrderLevel_def
        fillOrdersAtCurrIdx_def try_emplace_def ddiv_def Let_def numeral_eq_Suc fun_upd_twist)

section \<open>Task scheduler: cancellation\<close>

lemma mset_tq_push: "mset (tq_push t q) = add_mset t (mset q)"
  by (simp add: tq_push_def)

lemma mset_push_back: "mset (foldl (\<lambda>acc t. tq_push t acc) q ts) = mset ts + mset q"
  by (induction ts arbitrary: q) (simp_all add: mset_tq_push)

lemma pop_until_mset:
  "pop_until tid q acc = (ts, q') \<Longrightarrow> mset ts + mset q' = mset acc + mset q"
  by (induction q arbitrary: acc) (auto split: if_splits)

lemma pop_until_empty:
  "pop_until tid q acc = (ts, []) \<Longrightarrow> list_all (\<lambda>t. task_id t \<noteq> tid) q"
  by (induction q arbitrary: acc) (auto split: if_splits)

lemma pop_until_found:
  "pop_until tid q acc = (ts, t # q') \<Longrightarrow> task_id t = tid \<and> t \<in> set q"
  by (induction q arbitrary: acc) (auto split: if_splits)

lemma not_removed: "t \<in> set q \<Longrightarrow> mset q' = mset q \<Longrightarrow> mset q' \<noteq> mset q - {#t#}"
proof
  assume a: "t \<in> set q" "mset q' = mset q" "mset q' = mset q - {#t#}"
  then have "count (mset q) t = count (mset q - {#t#}) t" by simp
  then have "count (mset q) t = count (mset q) t - 1" by simp
  moreover from a(1) have "0 < count (mset q) t"
    by (simp add: count_greater_zero_iff del: count_mset)
  ultimately show False by linarith
qed

text \<open>
  C4, as stated, fails in its last part: for a task of the executed set that is not
  repeated, \<open>deleteScheduled\<close> returns \<open>false\<close> in every state, but it reports "has been
  executed" only while the event loop runs. After the shutdown of the loop the test at the
  top of \<open>deleteScheduled\<close> answers first, with "Event loop not running".
\<close>

theorem deleteScheduled_after_shutdown_reports_not_running:
  "1 \<in> executed_tasks (sched_example\<lparr>event_loop_running := False\<rparr>)
   \<and> repeated_tasks (sched_example\<lparr>event_loop_running := False\<rparr>) 1 = None
   \<and> deleteScheduled 1 (sched_example\<lparr>event_loop_running := False\<rparr>)
       = ((False, Not_running), sched_example\<lparr>event_loop_running := False\<rparr>)
   \<and> Not_running \<noteq> Has_been_executed"
  by (simp add: sched_example_def deleteScheduled_def)

text \<open>
  C4, amended. In every state \<open>deleteScheduled(task_id)\<close> returns \<open>true\<close> if and only if
  one pending occurrence of the task was removed from the queue or the entry of the task
  was removed from \<open>repeated_tasks\<close>. If the task is in \<open>executed_tasks\<close> and not in
  \<open>repeated_tasks\<close>, the call returns \<open>false\<close> and changes nothing; it reports "has been
  executed" while the event loop runs and "Event loop not running" after its shutdown.
\<close>

theorem deleteScheduled_true_iff_removed:
  assumes "deleteScheduled tid s = ((ok, msg), s')"
  shows "(ok \<longleftrightarrow> (\<exists>t. t \<in> set (taskq s) \<and> task_id t = tid
                        \<and> mset (taskq s') = mset (taskq s) - {#t#})
                \<or> (repeated_tasks s tid \<noteq> None \<and> repeated_tasks s' tid = None))
       \<and> (tid \<in> executed_tasks s \<and> repeated_tasks s tid = None \<longrightarrow>
            \<not> ok \<and> s' = s
            \<and> msg = (if event_loop_running s then Has_been_executed else Not_running))"
proof (cases "event_loop_running s")
  case False
  with assms have "\<not> ok" "s' = s" "msg = Not_running"
    by (auto simp: deleteScheduled_def)
  with False show ?thesis using not_removed[of _ "taskq s" "taskq s"] by auto
next
  case run: True
  show ?thesis
  proof (cases "repeated_tasks s tid = None \<and> tid \<in> executed_tasks s")
    case True
    with run assms have "\<not> ok" "s' = s" "msg = Has_been_executed"
      by (auto simp: deleteScheduled_def)
    with run True show ?thesis using not_removed[of _ "taskq s" "taskq s"] by auto
  next
    case nex: False
    obtain ts q where pu: "pop_until tid (taskq s) [] = (ts, q)" by force
    show ?thesis
    proof (cases q)
      case Nil
      from pu Nil have none: "list_all (\<lambda>t. task_id t \<noteq> tid) (taskq s)"
        using pop_until_empty by blast
      from assms run nex pu Nil have ok: "ok = (repeated_tasks s tid \<noteq> None)"
        and rep: "repeated_tasks s' tid = None"
        by (auto simp: deleteScheduled_def Let_def split: if_splits)
      from none have "\<not> (\<exists>t. t \<in> set (taskq s) \<and> task_id t = tid
                            \<and> mset (taskq s') = mset (taskq s) - {#t#})"
        by (auto simp: list_all_iff)
      with ok rep nex show ?thesis by auto
    next
      case (Cons t q')
      from pu Cons have tt: "task_id t = tid" "t \<in> set (taskq s)"
        using pop_until_found by blast+
      from pop_until_mset[OF pu] Cons
      have ms: "mset (taskq s) = add_mset t (mset ts + mset q')" by simp
      from assms run nex pu Cons tt have ok: "ok"
        and q: "taskq s' = foldl (\<lambda>acc t. tq_push t acc) q' ts"
        by (auto simp: deleteScheduled_def Let_def split: if_splits)
      have "mset (taskq s') = mset (taskq s) - {#t#}" by (simp add: q mset_push_back ms)
      with tt ok nex show ?thesis by auto
    qed
  qed
qed

text \<open>
  Witness for C4, on \<open>sched_example\<close>: cancelling the repeated task 2 removes its entry
  and its pending occurrence and returns \<open>true\<close>; cancelling the executed task 1 returns
  \<open>false\<close> with "has been executed".
\<close>

theorem deleteScheduled_true_iff_removed_witness:
  "deleteScheduled 2 sched_example
     = ((True, Deleting), sched_example\<lparr>repeated_tasks := Map.empty, taskq := []\<rparr>)
   \<and> repeated_tasks sched_example 2 \<noteq> None
   \<and> deleteScheduled 1 sched_example = ((False, Has_been_executed), sched_example)
   \<and> 1 \<in> executed_tasks sched_example \<and> repeated_tasks sched_example 1 = None
   \<and> \<not> (\<exists>t. t \<in> set (taskq sched_example) \<and> task_id t = 1
            \<and> mset (taskq sched_example) = mset (taskq sched_example) - {#t#})"
proof -
  have h2: "deleteScheduled 2 sched_example
              = ((True, Deleting), sched_example\<lparr>repeated_tasks := Map.empty, taskq := []\<rparr>)"
    by (simp add: sched_example_def deleteScheduled_def)
  have h1: "deleteScheduled 1 sched_example = ((False, Has_been_executed), sched_example)"
    by (simp add: sched_example_def deleteScheduled_def)
  have e: "1 \<in> executed_tasks sched_example" "repeated_tasks sched_example 1 = None"
    "repeated_tasks sched_example 2 \<noteq> None"
    by (simp_all add: sched_example_def)
  from deleteScheduled_true_iff_removed[OF h2] deleteScheduled_true_iff_removed[OF h1] h1 h2 e
  show ?thesis by simp
qed

section \<open>Task scheduler: repeated tasks\<close>


lemma deleteScheduled_frame:
  "next_task_id (snd (deleteScheduled tid s)) = next_task_id s"
  "repeated_tasks s x = None \<Longrightarrow> repeated_tasks (snd (deleteScheduled tid s)) x = None"
  "event_loop_running s \<Longrightarrow> repeated_tasks (snd (deleteScheduled tid s)) tid = None"
  by (auto simp: deleteScheduled_def Let_def split: if_splits list.splits prod.splits)



text \<open>
  In every state the system reaches from a new scheduler, the ids of \<open>repeated_tasks\<close>
  are below \<open>next_task_id\<close>: every repeated task is an issued one.
\<close>

lemma step_repeated_issued:
  assumes "step a (s, w) = Some (s', w')"
    and "\<forall>i. repeated_tasks s i \<noteq> None \<longrightarrow> i < next_task_id s"
  shows "\<forall>i. repeated_tasks s' i \<noteq> None \<longrightarrow> i < next_task_id s'"
proof (cases a)
  case (Call_scheduleTask st rt)
  with assms show ?thesis by (fastforce simp: scheduleTask_def split: if_splits)
next
  case (Call_scheduleRepeated st iv rt)
  with assms show ?thesis by (fastforce simp: scheduleRepeated_def split: if_splits)
next
  case (Call_deleteScheduled tid')
  with assms show ?thesis
    using deleteScheduled_frame(2)[where s = s and tid = tid']
    by (fastforce simp: deleteScheduled_frame(1))
next
  case Loop_start
  with assms show ?thesis by (auto split: worker.splits)
next
  case (Loop_run timeout now)
  with assms show ?thesis
    by (auto simp: run_begin_def split: worker.splits list.splits if_splits)
next
  case Loop_requeue
  with assms show ?thesis
    by (auto simp: run_finish_def split: worker.splits option.splits)
next
  case Loop_shutdown
  with assms show ?thesis by (auto split: worker.splits)
qed

lemma steps_repeated_issued:
  "steps as c = Some c' \<Longrightarrow> \<forall>i. repeated_tasks (fst c) i \<noteq> None \<longrightarrow> i < next_task_id (fst c)
   \<Longrightarrow> \<forall>i. repeated_tasks (fst c') i \<noteq> None \<longrightarrow> i < next_task_id (fst c')"
proof (induction as arbitrary: c)
  case Nil
  then show ?case by simp
next
  case (Cons a as)
  then obtain c1 where c1: "step a c = Some c1" "steps as c1 = Some c'"
    by (auto split: option.splits)
  from c1(1) Cons.prems(2)
  have "\<forall>i. repeated_tasks (fst c1) i \<noteq> None \<longrightarrow> i < next_task_id (fst c1)"
    using step_repeated_issued[of a "fst c" "snd c" "fst c1" "snd c1"] by simp
  with Cons.IH c1(2) show ?case by blast
qed

lemma reachable_repeated_issued:
  "steps as (new_scheduler, Starting) = Some (s, w) \<Longrightarrow> repeated_tasks s tid \<noteq> None
   \<Longrightarrow> tid < next_task_id s"
  using steps_repeated_issued[of as "(new_scheduler, Starting)" "(s, w)"]
  by (simp add: new_scheduler_def)



section \<open>Resource pool\<close>

text \<open>
  C9, as stated, fails for a live pool with two idle resources: the queue is first in,
  first out, so after acquire, drop, acquire the second handle holds the other resource
  and one resource is idle. On \<open>pool_two_idle\<close> the first handle holds resource 0, the
  second holds resource 1, and resource 0 is idle.
\<close>

theorem second_acquire_takes_oldest_idle:
  "request pool_two_idle = Inr (0, pool_two_idle\<lparr>pool := [1]\<rparr>)
   \<and> rdeleter 0 (pool_two_idle\<lparr>pool := [1]\<rparr>) = pool_two_idle\<lparr>pool := [1, 0]\<rparr>
   \<and> request (pool_two_idle\<lparr>pool := [1, 0]\<rparr>) = Inr (1, pool_two_idle\<lparr>pool := [0]\<rparr>)
   \<and> get_num_unused (pool_two_idle\<lparr>pool := [0]\<rparr>) = 1"
  by (simp add: pool_two_idle_def request_def rdeleter_def recycle_def get_num_unused_def)

text \<open>
  C9, amended. For a live pool, dropping a handle puts its resource at the tail of the idle
  queue, and \<open>request\<close> on a non-empty idle queue takes the head and allocates nothing.
  So, when at most one resource is idle before, after acquire \<open>h1\<close>, drop \<open>h1\<close>, acquire
  \<open>h2\<close>: \<open>h2\<close> holds the resource \<open>h1\<close> held, no resource is idle, and the second acquire
  allocated nothing (the pool is as it was after the first acquire). The first acquire
  returns unless the queue is empty and the factory is an empty function.
\<close>

theorem released_resource_is_reused:
  "0 < use_count p \<Longrightarrow>
     rdeleter r p = p\<lparr>pool := pool p @ [r]\<rparr>
   \<and> (pool p = r0 # rest \<longrightarrow> request p = Inr (r0, p\<lparr>pool := rest\<rparr>))
   \<and> (length (pool p) \<le> 1 \<longrightarrow>
        (case request p of
           Inl e \<Rightarrow> e = Bad_function_call \<and> pool p = [] \<and> allocate p = Empty_function
         | Inr (h1, p1) \<Rightarrow>
             request (rdeleter h1 p1) = Inr (h1, p1) \<and> get_num_unused p1 = 0))"
  by (cases "pool p"; cases "tl (pool p)"; cases "allocate p")
     (simp_all add: rdeleter_def recycle_def request_def get_num_unused_def)

text \<open>
  Witness for C9, on \<open>fresh_pool\<close>: the first acquire allocates resource 0, the drop
  queues it, and the second acquire returns resource 0 with nothing idle and one
  allocation in total.
\<close>

theorem released_resource_is_reused_witness:
  "0 < use_count fresh_pool \<and> length (pool fresh_pool) \<le> 1
   \<and> request fresh_pool = Inr (0, fresh_pool\<lparr>allocated := 1\<rparr>)
   \<and> rdeleter 0 (fresh_pool\<lparr>allocated := 1\<rparr>) = fresh_pool\<lparr>allocated := 1, pool := [0]\<rparr>
   \<and> request (fresh_pool\<lparr>allocated := 1, pool := [0]\<rparr>) = Inr (0, fresh_pool\<lparr>allocated := 1\<rparr>)
   \<and> get_num_unused (fresh_pool\<lparr>allocated := 1\<rparr>) = 0"
proof -
  have h: "0 < use_count fresh_pool" "0 < use_count (fresh_pool\<lparr>allocated := 1\<rparr>)"
    "0 < use_count (fresh_pool\<lparr>allocated := 1, pool := [0]\<rparr>)"
    by (simp_all add: fresh_pool_def)
  have q: "pool fresh_pool = []" "pool (fresh_pool\<lparr>allocated := 1, pool := [0]\<rparr>) = [0]"
    by (simp_all add: fresh_pool_def)
  have r: "request fresh_pool = Inr (0, fresh_pool\<lparr>allocated := 1\<rparr>)"
    by (simp add: fresh_pool_def request_def)
  from released_resource_is_reused[OF h(1), of 0 0 "[]"]
       released_resource_is_reused[OF h(2), of 0 0 "[]"]
       released_resource_is_reused[OF h(3), of 0 0 "[]"] h q r
  show ?thesis by (simp add: fresh_pool_def)
qed

text \<open>
  C10, as stated, fails for the source object of a move. The source keeps its owners and
  loses its queue and its factory, so \<open>request\<close> on it throws \<open>std::bad_function_call\<close> at
  \<open>allocate()\<close>, before the constructor of the deleter and its assertion are reached:
  so it is for the owned \<open>fresh_pool\<close> after a move, and so it is for \<open>stack_pool\<close> after
  a move, a pool that no \<open>shared_ptr\<close> owns and that does not fail the assertion.
\<close>

theorem request_on_move_source_throws_before_assertion:
  "use_count (moved_from fresh_pool) = 1
   \<and> request (moved_from fresh_pool) = Inl Bad_function_call
   \<and> use_count (moved_from stack_pool) = 0
   \<and> request (moved_from stack_pool) = Inl Bad_function_call
   \<and> Bad_function_call \<noteq> Assertion_failed"
  by (simp add: fresh_pool_def stack_pool_def moved_from_def request_def)

text \<open>
  C10, amended. \<open>request\<close> needs a pool that at least one \<open>shared_ptr\<close> owns: the
  constructor of the deleter asserts that the weak pointer of \<open>weak_from_this\<close> is not
  expired. On a pool that none owns (an object on the stack, or the object the move
  constructor builds) \<open>request\<close> fails this assertion as soon as it has a resource in
  hand, that is, when the idle queue is not empty or the factory is callable; on an owned
  pool it then returns a handle. With the queue empty and the factory an empty function,
  as in the source object of a move, \<open>request\<close> throws \<open>std::bad_function_call\<close> first,
  owned or not.
\<close>

theorem request_asserts_pool_is_owned:
  "(use_count p = 0 \<and> (pool p = [] \<longrightarrow> allocate p = Callable)
      \<longrightarrow> request p = Inl Assertion_failed)
   \<and> ((pool p = [] \<longrightarrow> allocate p = Callable)
      \<longrightarrow> request (move_constructed p) = Inl Assertion_failed)
   \<and> (0 < use_count p \<and> (pool p = [] \<longrightarrow> allocate p = Callable)
      \<longrightarrow> (\<exists>h p'. request p = Inr (h, p')))
   \<and> (pool p = [] \<and> allocate p = Empty_function \<longrightarrow> request p = Inl Bad_function_call)
   \<and> request (moved_from p) = Inl Bad_function_call"
  by (cases "pool p"; cases "allocate p")
     (simp_all add: request_def move_constructed_def moved_from_def)

text \<open>
  Witness for C10: \<open>fresh_pool\<close> is owned and hands out resource 0; \<open>stack_pool\<close> and the
  pool moved out of \<open>fresh_pool\<close> have no owner and fail the assertion; \<open>fresh_pool\<close>
  itself, after that move, has an empty queue and an empty factory and throws.
\<close>

theorem request_asserts_pool_is_owned_witness:
  "use_count stack_pool = 0 \<and> allocate stack_pool = Callable
   \<and> request stack_pool = Inl Assertion_failed
   \<and> allocate fresh_pool = Callable
   \<and> request (move_constructed fresh_pool) = Inl Assertion_failed
   \<and> 0 < use_count fresh_pool
   \<and> (\<exists>h p'. request fresh_pool = Inr (h, p'))
   \<and> pool (moved_from fresh_pool) = [] \<and> allocate (moved_from fresh_pool) = Empty_function
   \<and> request (moved_from fresh_pool) = Inl Bad_function_call"
proof -
  have h: "use_count stack_pool = 0" "allocate stack_pool = Callable"
    "allocate fresh_pool = Callable" "0 < use_count fresh_pool"
    "pool (moved_from fresh_pool) = []" "allocate (moved_from fresh_pool) = Empty_function"
    by (simp_all add: fresh_pool_def stack_pool_def moved_from_def)
  from request_asserts_pool_is_owned[of stack_pool]
       request_asserts_pool_is_owned[of fresh_pool]
       request_asserts_pool_is_owned[of "moved_from fresh_pool"] h
  show ?thesis by simp
qed

end
